theory Spec2Isabelle
  imports Complex_Main "HOL-Library.Log_Nat"
begin

section \<open>Data model\<close>

text \<open>
  The exceptions the module can raise, as values. \<open>ValueError a b\<close> is the error of
  \<open>trim_tickerlist\<close>; its message is built from \<open>timerange.startts\<close> and
  \<open>timerange.stopts\<close>, which are the two arguments. \<open>ExchangeError\<close> stands for
  whatever the exchange client raises, \<open>OtherError\<close> for an exception of another
  collaborator, by its name.
\<close>

datatype error =
    ValueError int int
  | IndexError
  | KeyError string
  | ZeroDivisionError
  | OverflowError
  | ExchangeError string
  | OtherError string

text \<open>
  A ticker record is the list \<open>[timestamp_ms, open, high, low, close, volume]\<close>; the
  code reads only element 0. The five floating-point fields are kept as an opaque
  payload.
\<close>

datatype 'p tick = Tick (timestamp_ms: int) (ohlcv: 'p)

text \<open>
  \<open>TimeRange\<close> is the named tuple \<open>(starttype, stoptype, startts, stopts)\<close>; the two
  types are \<open>None\<close> or a string that the code compares with \<open>'line'\<close>, \<open>'index'\<close>
  and \<open>'date'\<close>.
\<close>

record TimeRange =
  starttype :: "string option"
  stoptype :: "string option"
  startts :: int
  stopts :: int

section \<open>Python lists\<close>

text \<open>\<open>xs[i]\<close>: a negative index counts from the end, out of range raises.\<close>

definition py_index :: "'a list \<Rightarrow> int \<Rightarrow> error + 'a" where
  "py_index xs i =
     (if 0 \<le> i \<and> i < int (length xs) then Inr (xs ! nat i)
      else if i < 0 \<and> - int (length xs) \<le> i then Inr (xs ! nat (int (length xs) + i))
      else Inl IndexError)"

text \<open>\<open>xs[i:j]\<close>: negative bounds count from the end, then both are clamped.\<close>

definition py_clamp :: "nat \<Rightarrow> int \<Rightarrow> nat" where
  "py_clamp n i = (if i < 0 then nat (max 0 (i + int n)) else min n (nat i))"

definition py_slice :: "'a list \<Rightarrow> int \<Rightarrow> int \<Rightarrow> 'a list" where
  "py_slice xs i j =
     take (py_clamp (length xs) j - py_clamp (length xs) i) (drop (py_clamp (length xs) i) xs)"

section \<open>trim_tickerlist\<close>

text \<open>
  The forward scan of the \<open>'date'\<close> start:
  \<^verbatim>\<open>
  while (start_index < len(tickerlist) and
         tickerlist[start_index][0] < timerange.startts * 1000):
      start_index += 1
  \<close>
  \<open>limit_ms\<close> is \<open>timerange.startts * 1000\<close>.
\<close>

function start_scan :: "'p tick list \<Rightarrow> int \<Rightarrow> int \<Rightarrow> error + int" where
  "start_scan tickerlist limit_ms start_index =
     (if start_index < int (length tickerlist) then
        (case py_index tickerlist start_index of
           Inl e \<Rightarrow> Inl e
         | Inr t \<Rightarrow>
             if timestamp_ms t < limit_ms then start_scan tickerlist limit_ms (start_index + 1)
             else Inr start_index)
      else Inr start_index)"
  by pat_completeness auto
termination
  by (relation "measure (\<lambda>(xs, limit_ms, i). nat (int (length xs) - i))") auto

declare start_scan.simps [simp del]

text \<open>
  The backward scan of the \<open>'date'\<close> stop:
  \<^verbatim>\<open>
  while (stop_index > 0 and
         tickerlist[stop_index-1][0] > timerange.stopts * 1000):
      stop_index -= 1
  \<close>
  \<open>stop_index\<close> enters the loop as \<open>len(tickerlist)\<close>, or as \<open>timerange.startts\<close>
  when the start type is \<open>'line'\<close>; in the second case the read can be out of range.
\<close>

function stop_scan :: "'p tick list \<Rightarrow> int \<Rightarrow> int \<Rightarrow> error + int" where
  "stop_scan tickerlist limit_ms stop_index =
     (if stop_index > 0 then
        (case py_index tickerlist (stop_index - 1) of
           Inl e \<Rightarrow> Inl e
         | Inr t \<Rightarrow>
             if timestamp_ms t > limit_ms then stop_scan tickerlist limit_ms (stop_index - 1)
             else Inr stop_index)
      else Inr stop_index)"
  by pat_completeness auto
termination
  by (relation "measure (\<lambda>(xs, limit_ms, j). nat j)") auto

declare stop_scan.simps [simp del]

text \<open>
  Lines 40 to 50 of the source: the two indices after the start side of the range has
  been read. The \<open>'line'\<close> start type overrides \<open>stop_index\<close>.
\<close>

definition resolve_start :: "'p tick list \<Rightarrow> TimeRange \<Rightarrow> error + (int \<times> int)" where
  "resolve_start tickerlist timerange =
     (let start_index = 0;
          stop_index = int (length tickerlist);
          stop_index = (if starttype timerange = Some ''line'' then startts timerange
                        else stop_index)
      in if starttype timerange = Some ''index'' then Inr (startts timerange, stop_index)
         else if starttype timerange = Some ''date'' then
           (case start_scan tickerlist (startts timerange * 1000) start_index of
              Inl e \<Rightarrow> Inl e
            | Inr i \<Rightarrow> Inr (i, stop_index))
         else Inr (start_index, stop_index))"

text \<open>
  Lines 52 to 59: the stop side. The \<open>'line'\<close> stop type overrides \<open>start_index\<close>.
\<close>

definition resolve_stop ::
  "'p tick list \<Rightarrow> TimeRange \<Rightarrow> int \<times> int \<Rightarrow> error + (int \<times> int)" where
  "resolve_stop tickerlist timerange idx =
     (let start_index = fst idx;
          stop_index = snd idx;
          start_index = (if stoptype timerange = Some ''line''
                         then int (length tickerlist) + stopts timerange
                         else start_index)
      in if stoptype timerange = Some ''index'' then Inr (start_index, stopts timerange)
         else if stoptype timerange = Some ''date'' then
           (case stop_scan tickerlist (stopts timerange * 1000) stop_index of
              Inl e \<Rightarrow> Inl e
            | Inr j \<Rightarrow> Inr (start_index, j))
         else Inr (start_index, stop_index))"

definition resolve_indices :: "'p tick list \<Rightarrow> TimeRange \<Rightarrow> error + (int \<times> int)" where
  "resolve_indices tickerlist timerange =
     (case resolve_start tickerlist timerange of
        Inl e \<Rightarrow> Inl e
      | Inr idx \<Rightarrow> resolve_stop tickerlist timerange idx)"

definition trim_tickerlist :: "'p tick list \<Rightarrow> TimeRange \<Rightarrow> error + 'p tick list" where
  "trim_tickerlist tickerlist timerange =
     (if tickerlist = [] then Inr tickerlist
      else
        (case resolve_indices tickerlist timerange of
           Inl e \<Rightarrow> Inl e
         | Inr (start_index, stop_index) \<Rightarrow>
             if start_index > stop_index
             then Inl (ValueError (startts timerange) (stopts timerange))
             else Inr (py_slice tickerlist start_index stop_index)))"

section \<open>validate_backtest_data\<close>

text \<open>
  Line 92 computes in floating point:
  \<^verbatim>\<open>
  expected_frames = int((max_date - min_date).total_seconds() // 60 // ticker_interval_mins)
  \<close>
  A float is modelled by the rational number it denotes, and every operation rounds
  its exact result to the nearest float with 53 significant bits, ties to even. The
  values that occur here are 0 or lie between \<open>10^-6\<close> and \<open>2^1024\<close>, so that infinities,
  subnormal numbers and the sign of zero play no part.

  \<open>float_exponent x\<close> is the exponent \<open>e\<close> with \<open>2^e \<le> |x| < 2^(e+1)\<close>, for \<open>x\<close> other
  than 0, and \<open>float_round\<close> rounds to a multiple of \<open>2^(e-52)\<close>.
\<close>

definition float_exponent :: "rat \<Rightarrow> int" where
  "float_exponent x =
     (if 1 \<le> \<bar>x\<bar> then bitlen \<lfloor>\<bar>x\<bar>\<rfloor> - 1 else - bitlen (\<lceil>1 / \<bar>x\<bar>\<rceil> - 1))"

definition round_half_even :: "rat \<Rightarrow> int" where
  "round_half_even r =
     (let f = \<lfloor>r\<rfloor>; d = r - of_int f
      in if d < 1 / 2 then f else if 1 / 2 < d then f + 1 else if even f then f else f + 1)"

definition float_round :: "rat \<Rightarrow> rat" where
  "float_round x =
     (if x = 0 then 0
      else (let u = 2 powi (float_exponent x - 52) in u * of_int (round_half_even (x / u))))"



text \<open>\<open>int(x)\<close> and the quotient inside \<open>fmod\<close> truncate towards zero.\<close>

definition py_trunc :: "rat \<Rightarrow> int" where
  "py_trunc x = (if 0 \<le> x then \<lfloor>x\<rfloor> else \<lceil>x\<rceil>)"




text \<open>
  What the module writes to its logger, one constructor for each message, with the
  arguments of the message.
\<close>

datatype log_record =
    MissingFrames string int int int
  | DownloadThePair string string
  | CurrentStart string
  | CurrentEnd string
  | NewStart string
  | NewEnd string
  | FailedToDownload string string



section \<open>load_cached_data_for_updating\<close>

text \<open>
  What the module takes from outside itself: the table
  \<open>constants.TICKER_INTERVAL_MINUTES\<close>, and the clock behind \<open>arrow.utcnow()\<close>.
  \<open>utcnow_shift_minutes m\<close> is \<open>arrow.utcnow().shift(minutes=m).timestamp\<close>, in seconds,
  which raises when the shifted date is out of range; \<open>utcnow_minus_30_days\<close> is
  \<open>int(arrow.utcnow().shift(days=-30).float_timestamp)\<close>; \<open>default_testdata_path\<close> is the
  absolute path of \<open>tests/testdata\<close>.
\<close>

record env =
  TICKER_INTERVAL_MINUTES :: "string \<rightharpoonup> int"
  utcnow_shift_minutes :: "int \<Rightarrow> error + int"
  utcnow_minus_30_days :: int
  default_testdata_path :: string

text \<open>Lines 216 to 224: the start the caller asks for.\<close>

definition requested_since :: "env \<Rightarrow> string \<Rightarrow> TimeRange option \<Rightarrow> error + int option" where
  "requested_since e tick_interval timerange =
     (case timerange of
        None \<Rightarrow> Inr None
      | Some r \<Rightarrow>
          if starttype r = Some ''date'' then Inr (Some (startts r * 1000))
          else if stoptype r = Some ''line'' then
            (case TICKER_INTERVAL_MINUTES e tick_interval of
               None \<Rightarrow> Inl (KeyError tick_interval)
             | Some mins \<Rightarrow>
                 (case utcnow_shift_minutes e (stopts r * mins) of
                    Inl err \<Rightarrow> Inl err
                  | Inr t \<Rightarrow> Inr (Some (t * 1000))))
          else Inr None)"

text \<open>
  Lines 227 to 235: the files are a map from a file name to its decoded content; the
  last record of a cached series is dropped.
\<close>

definition read_cache :: "(string \<rightharpoonup> 'p tick list) \<Rightarrow> string \<Rightarrow> 'p tick list" where
  "read_cache fs filename =
     (case fs filename of
        Some content \<Rightarrow> if content \<noteq> [] then butlast content else content
      | None \<Rightarrow> [])"

text \<open>\<open>since_ms and since_ms < t\<close>: \<open>None\<close> and \<open>0\<close> are both false in Python.\<close>

definition since_earlier :: "int option \<Rightarrow> int \<Rightarrow> bool" where
  "since_earlier since_ms t = (case since_ms of None \<Rightarrow> False | Some s \<Rightarrow> s \<noteq> 0 \<and> s < t)"

definition load_cached_data_for_updating ::
  "env \<Rightarrow> (string \<rightharpoonup> 'p tick list) \<Rightarrow> string \<Rightarrow> string \<Rightarrow> TimeRange option
     \<Rightarrow> error + ('p tick list \<times> int option)" where
  "load_cached_data_for_updating e fs filename tick_interval timerange =
     (case requested_since e tick_interval timerange of
        Inl err \<Rightarrow> Inl err
      | Inr since_ms \<Rightarrow>
          (let data = read_cache fs filename
           in if data \<noteq> [] then
                (if since_earlier since_ms (timestamp_ms (hd data)) then Inr ([], since_ms)
                 else Inr (data, Some (timestamp_ms (last data) + 1)))
              else Inr (data, since_ms)))"

section \<open>download_backtesting_testdata and download_pairs\<close>

text \<open>The state the two functions change: the files and the log.\<close>

record 'p world =
  files :: "string \<rightharpoonup> 'p tick list"
  logged :: "log_record list"

definition log_to :: "log_record \<Rightarrow> 'p world \<Rightarrow> 'p world" where
  "log_to r w = w\<lparr>logged := logged w @ [r]\<rparr>"

text \<open>\<open>datadir or os.path.abspath(...)\<close>: an empty \<open>datadir\<close> is false.\<close>

definition make_testdata_path :: "env \<Rightarrow> string \<Rightarrow> string" where
  "make_testdata_path e datadir = (if datadir \<noteq> [] then datadir else default_testdata_path e)"

text \<open>\<open>os.path.join\<close> of two components, on POSIX.\<close>

definition os_path_join :: "string \<Rightarrow> string \<Rightarrow> string" where
  "os_path_join a b =
     (if b \<noteq> [] \<and> hd b = CHR ''/'' then b
      else if a = [] \<or> last a = CHR ''/'' then a @ b
      else a @ ''/'' @ b)"

definition replace_slash :: "string \<Rightarrow> string" where
  "replace_slash pair = map (\<lambda>c. if c = CHR ''/'' then CHR ''_'' else c) pair"

definition cache_filename :: "env \<Rightarrow> string \<Rightarrow> string \<Rightarrow> string \<Rightarrow> string" where
  "cache_filename e datadir pair tick_interval =
     os_path_join (make_testdata_path e datadir)
       (replace_slash pair @ ''-'' @ tick_interval @ ''.json'')"

text \<open>
  The two helpers of \<open>freqtrade.misc\<close> that the download calls are not among the
  sources. \<open>format_ms_time\<close> is taken as it is: a function from a timestamp to the text
  that is logged, or to the exception it raises. \<open>write_failure\<close> says when
  \<open>file_dump_json\<close> fails: with which exception, and what it leaves of the files.
\<close>

record 'p misc =
  format_ms_time :: "int \<Rightarrow> error + string"
  write_failure ::
    "string \<Rightarrow> 'p tick list \<Rightarrow> (string \<rightharpoonup> 'p tick list)
       \<Rightarrow> (error \<times> (string \<rightharpoonup> 'p tick list)) option"

text \<open>
  Modelled from the spec: \<open>misc.file_dump_json\<close> is missing from the sources. By the
  spec the series is persisted back to the same path, fully overwriting it, and a
  persist failure propagates; what a failed write leaves behind is not said and comes
  from \<open>write_failure\<close>.
\<close>

definition file_dump_json ::
  "'p misc \<Rightarrow> string \<Rightarrow> 'p tick list \<Rightarrow> (string \<rightharpoonup> 'p tick list)
     \<Rightarrow> error option \<times> (string \<rightharpoonup> 'p tick list)" where
  "file_dump_json m filename data fs =
     (case write_failure m filename data fs of
        None \<Rightarrow> (None, fs(filename \<mapsto> data))
      | Some (err, fs') \<Rightarrow> (Some err, fs'))"

text \<open>
  \<open>misc.format_ms_time(data[i][0])\<close>, and
  \<open>misc.format_ms_time(data[i][0]) if data else 'None'\<close>: the argument of a debug
  message is evaluated before the logger is called, so an index out of range raises,
  and so does a timestamp that cannot be formatted.
\<close>

definition stamp_at :: "'p misc \<Rightarrow> 'p tick list \<Rightarrow> int \<Rightarrow> error + string" where
  "stamp_at m data i =
     (case py_index data i of
        Inl err \<Rightarrow> Inl err
      | Inr t \<Rightarrow> format_ms_time m (timestamp_ms t))"

definition stamp_or_none :: "'p misc \<Rightarrow> 'p tick list \<Rightarrow> int \<Rightarrow> error + string" where
  "stamp_or_none m data i = (if data \<noteq> [] then stamp_at m data i else Inr ''None'')"

text \<open>
  Lines 269 to 282, up to the call of the exchange: the file name, the cached data and
  the two debug messages. The result is the exception raised and the state reached,
  or the file name, the retained data, \<open>since_ms\<close> and the state.
\<close>

definition prepare_download ::
  "env \<Rightarrow> 'p misc \<Rightarrow> string \<Rightarrow> string \<Rightarrow> string \<Rightarrow> TimeRange option \<Rightarrow> 'p world
     \<Rightarrow> (error \<times> 'p world) + (string \<times> 'p tick list \<times> int option \<times> 'p world)" where
  "prepare_download e m datadir pair tick_interval timerange w =
     (let filename = cache_filename e datadir pair tick_interval;
          w1 = log_to (DownloadThePair pair tick_interval) w
      in case load_cached_data_for_updating e (files w1) filename tick_interval timerange of
           Inl err \<Rightarrow> Inl (err, w1)
         | Inr (data, since_ms) \<Rightarrow>
             (case stamp_or_none m data 1 of
                Inl err \<Rightarrow> Inl (err, w1)
              | Inr cur_start \<Rightarrow>
                  (let w2 = log_to (CurrentStart cur_start) w1
                   in case stamp_or_none m data (- 1) of
                        Inl err \<Rightarrow> Inl (err, w2)
                      | Inr cur_end \<Rightarrow>
                          Inr (filename, data, since_ms, log_to (CurrentEnd cur_end) w2))))"

text \<open>
  \<open>since_ms if since_ms else int(arrow.utcnow().shift(days=-30).float_timestamp) * 1000\<close>:
  \<open>None\<close> and \<open>0\<close> are both false.
\<close>

definition fetch_since :: "env \<Rightarrow> int option \<Rightarrow> int" where
  "fetch_since e since_ms =
     (case since_ms of
        Some s \<Rightarrow> if s \<noteq> 0 then s else utcnow_minus_30_days e * 1000
      | None \<Rightarrow> utcnow_minus_30_days e * 1000)"

text \<open>
  Lines 289 to 294, after the exchange has answered: the new records are appended, the
  two debug messages read the first and the last record, and the file is written.
\<close>

definition store_download ::
  "'p misc \<Rightarrow> string \<Rightarrow> 'p tick list \<Rightarrow> 'p tick list \<Rightarrow> 'p world \<Rightarrow> error option \<times> 'p world" where
  "store_download m filename data new_data w =
     (let data' = data @ new_data
      in case stamp_at m data' 0 of
           Inl err \<Rightarrow> (Some err, w)
         | Inr new_start \<Rightarrow>
             (let w4 = log_to (NewStart new_start) w
              in case stamp_at m data' (- 1) of
                   Inl err \<Rightarrow> (Some err, w4)
                 | Inr new_end \<Rightarrow>
                     (let w5 = log_to (NewEnd new_end) w4
                      in case file_dump_json m filename data' (files w5) of
                           (res, fs') \<Rightarrow> (res, w5\<lparr>files := fs'\<rparr>))))"

text \<open>
  The exchange is the function \<open>get_history(pair, tick_interval, since_ms)\<close>, which
  returns the new records or raises. The result of the download is the exception
  raised, if any, and the state reached.
\<close>

definition download_backtesting_testdata ::
  "env \<Rightarrow> 'p misc \<Rightarrow> string \<Rightarrow> (string \<Rightarrow> string \<Rightarrow> int \<Rightarrow> error + 'p tick list) \<Rightarrow> string
     \<Rightarrow> string \<Rightarrow> TimeRange option \<Rightarrow> 'p world \<Rightarrow> error option \<times> 'p world" where
  "download_backtesting_testdata e m datadir exchange pair tick_interval timerange w =
     (case prepare_download e m datadir pair tick_interval timerange w of
        Inl (err, w') \<Rightarrow> (Some err, w')
      | Inr (filename, data, since_ms, w3) \<Rightarrow>
          (case exchange pair tick_interval (fetch_since e since_ms) of
             Inl err \<Rightarrow> (Some err, w3)
           | Inr new_data \<Rightarrow> store_download m filename data new_data w3))"

text \<open>
  \<^verbatim>\<open>
  for pair in pairs:
      try:
          download_backtesting_testdata(datadir, exchange=exchange, pair=pair,
                                        tick_interval=ticker_interval, timerange=timerange)
      except BaseException:
          logger.info('Failed to download the pair: "%s", Interval: %s', pair, ticker_interval)
          return False
  return True
  \<close>
\<close>

fun download_pairs ::
  "env \<Rightarrow> 'p misc \<Rightarrow> string \<Rightarrow> (string \<Rightarrow> string \<Rightarrow> int \<Rightarrow> error + 'p tick list)
     \<Rightarrow> string list \<Rightarrow> string \<Rightarrow> TimeRange \<Rightarrow> 'p world \<Rightarrow> bool \<times> 'p world" where
  "download_pairs e m datadir exchange [] ticker_interval timerange w = (True, w)"
| "download_pairs e m datadir exchange (pair # pairs) ticker_interval timerange w =
     (case download_backtesting_testdata e m datadir exchange pair ticker_interval
             (Some timerange) w of
        (Some err, w') \<Rightarrow> (False, log_to (FailedToDownload pair ticker_interval) w')
      | (None, w') \<Rightarrow> download_pairs e m datadir exchange pairs ticker_interval timerange w')"

section \<open>An example environment\<close>

text \<open>
  A concrete table, clock and exchange, on which the functions can be run: the interval
  \<open>'5m'\<close> lasts 5 minutes, the clock reads 1541325600 seconds, and the exchange is down
  for the pair \<open>'A/B'\<close> and returns two records for every other pair. In
  \<open>example_misc\<close> every timestamp is formatted, to the same text, and every write
  succeeds.
\<close>

definition example_env :: env where
  "example_env =
     \<lparr>TICKER_INTERVAL_MINUTES = [''5m'' \<mapsto> 5],
      utcnow_shift_minutes = (\<lambda>m. Inr (1541325600 + m * 60)),
      utcnow_minus_30_days = 1538733600,
      default_testdata_path = ''/testdata''\<rparr>"

definition example_exchange :: "string \<Rightarrow> string \<Rightarrow> int \<Rightarrow> error + unit tick list" where
  "example_exchange pair tick_interval since_ms =
     (if pair = ''A/B'' then Inl (ExchangeError ''down'')
      else Inr [Tick 1000 (), Tick 2000 ()])"

definition example_misc :: "unit misc" where
  "example_misc =
     \<lparr>format_ms_time = (\<lambda>ms. Inr ''a time''),
      write_failure = (\<lambda>filename data fs. None)\<rparr>"

section \<open>Facts about the list operations\<close>

lemma py_index_nonneg:
  "0 \<le> i \<Longrightarrow> i < int (length xs) \<Longrightarrow> py_index xs i = Inr (xs ! nat i)"
  by (simp add: py_index_def)

lemma py_index_error: "py_index xs i = Inl e \<Longrightarrow> e = IndexError"
  by (simp add: py_index_def split: if_splits)

lemma py_clamp_nonneg: "0 \<le> i \<Longrightarrow> py_clamp n i = min n (nat i)"
  by (simp add: py_clamp_def)

lemma py_slice_all: "py_slice xs 0 (int (length xs)) = xs"
  by (simp add: py_slice_def py_clamp_def)

lemma py_slice_from:
  "0 \<le> i \<Longrightarrow> i \<le> int (length xs) \<Longrightarrow>
   py_slice xs i j = take (py_clamp (length xs) j - nat i) (drop (nat i) xs)"
  by (simp add: py_slice_def py_clamp_nonneg min_def)

section \<open>Facts about the two scans\<close>

lemma start_scan_closed:
  "0 \<le> i \<Longrightarrow>
   start_scan xs l i = Inr (i + int (length (takeWhile (\<lambda>t. timestamp_ms t < l) (drop (nat i) xs))))"
proof (induction xs l i rule: start_scan.induct)
  case (1 xs l i)
  show ?case
  proof (cases "i < int (length xs)")
    case False
    with "1.prems" show ?thesis by (subst start_scan.simps) simp
  next
    case True
    with "1.prems" have ix: "py_index xs i = Inr (xs ! nat i)"
      by (simp add: py_index_nonneg)
    from True "1.prems" have dr: "drop (nat i) xs = xs ! nat i # drop (Suc (nat i)) xs"
      by (simp add: Cons_nth_drop_Suc)
    show ?thesis
    proof (cases "timestamp_ms (xs ! nat i) < l")
      case False
      with True ix dr show ?thesis by (subst start_scan.simps) simp
    next
      case lt: True
      from "1.prems" have "start_scan xs l (i + 1) =
          Inr (i + 1 + int (length (takeWhile (\<lambda>t. timestamp_ms t < l) (drop (nat (i + 1)) xs))))"
        using "1.IH"[OF True ix lt] by simp
      moreover from "1.prems" have "nat (i + 1) = Suc (nat i)" by simp
      ultimately show ?thesis using True ix dr lt
        by (subst start_scan.simps) simp
    qed
  qed
qed

lemma start_scan_zero:
  "start_scan xs l 0 = Inr (int (length (takeWhile (\<lambda>t. timestamp_ms t < l) xs)))"
  using start_scan_closed [of 0 xs l] by simp

lemma stop_scan_error: "stop_scan xs l j = Inl e \<Longrightarrow> e = IndexError"
proof (induction xs l j rule: stop_scan.induct)
  case (1 xs l j)
  show ?case
  proof (cases "0 < j")
    case False
    with "1.prems" show ?thesis by (subst (asm) stop_scan.simps) simp
  next
    case pos: True
    show ?thesis
    proof (cases "py_index xs (j - 1)")
      case (Inl err)
      with pos "1.prems" have "e = err" by (subst (asm) stop_scan.simps) simp
      with Inl show ?thesis by (simp add: py_index_error)
    next
      case (Inr t)
      show ?thesis
      proof (cases "l < timestamp_ms t")
        case True
        with pos Inr "1.prems" have "stop_scan xs l (j - 1) = Inl e"
          by (subst (asm) stop_scan.simps) simp
        with "1.IH"[OF pos Inr True] show ?thesis .
      next
        case False
        with pos Inr "1.prems" show ?thesis by (subst (asm) stop_scan.simps) simp
      qed
    qed
  qed
qed

lemma resolve_start_error: "resolve_start xs r = Inl e \<Longrightarrow> e = IndexError"
  by (simp add: resolve_start_def Let_def start_scan_zero split: if_splits)

lemma resolve_stop_error: "resolve_stop xs r idx = Inl e \<Longrightarrow> e = IndexError"
  by (auto simp: resolve_stop_def Let_def split: if_splits sum.splits dest: stop_scan_error)

lemma resolve_indices_error: "resolve_indices xs r = Inl e \<Longrightarrow> e = IndexError"
  by (auto simp: resolve_indices_def split: sum.splits
      dest: resolve_start_error resolve_stop_error)

lemma resolve_start_date:
  "starttype r = Some ''date'' \<Longrightarrow>
   resolve_start xs r =
     Inr (int (length (takeWhile (\<lambda>t. timestamp_ms t < startts r * 1000) xs)), int (length xs))"
  by (simp add: resolve_start_def Let_def start_scan_zero)

lemma resolve_stop_plain:
  "stoptype r \<noteq> Some ''line'' \<Longrightarrow> stoptype r \<noteq> Some ''index'' \<Longrightarrow>
   stoptype r \<noteq> Some ''date'' \<Longrightarrow> resolve_stop xs r idx = Inr idx"
  by (simp add: resolve_stop_def Let_def)

lemma resolve_stop_keeps_start:
  "stoptype r \<noteq> Some ''line'' \<Longrightarrow> resolve_stop xs r (i, j) = Inr (i', j') \<Longrightarrow> i' = i"
  by (auto simp: resolve_stop_def Let_def split: if_splits sum.splits)

lemma sorted_after_takeWhile:
  assumes "sorted (map timestamp_ms xs)"
    and "t \<in> set (dropWhile (\<lambda>t. timestamp_ms t < l) xs)"
  shows "l \<le> timestamp_ms t"
  using assms
proof (induction xs)
  case Nil
  then show ?case by simp
next
  case (Cons x xs)
  show ?case
  proof (cases "timestamp_ms x < l")
    case True
    with Cons show ?thesis by simp
  next
    case False
    with Cons.prems show ?thesis by auto
  qed
qed


lemma trim_nonempty:
  "xs \<noteq> [] \<Longrightarrow> resolve_indices xs r = Inr (i, j) \<Longrightarrow>
   trim_tickerlist xs r =
     (if j < i then Inl (ValueError (startts r) (stopts r)) else Inr (py_slice xs i j))"
  by (simp add: trim_tickerlist_def)

section \<open>Claims about trim_tickerlist\<close>

text \<open>
  Claim C5. Let \<open>S\<close> be a non-empty series ascending by timestamp, and let the range
  have the start type \<open>'date'\<close> with start \<open>t0\<close> and a stop type other than \<open>'line'\<close>
  (the only other thing that sets \<open>start_index\<close>). Whenever \<open>trim_tickerlist\<close> returns,
  every record it returns has a timestamp of at least \<open>t0 * 1000\<close>; the slice begins
  right after the longest run of leading records with a timestamp below \<open>t0 * 1000\<close>,
  so every record of \<open>S\<close> before the slice, and the one immediately before it in
  particular, has a timestamp below \<open>t0 * 1000\<close>.
\<close>

theorem trim_date_start:
  assumes sorted: "sorted (map timestamp_ms S)"
    and nonempty: "S \<noteq> []"
    and date: "starttype r = Some ''date''"
    and noline: "stoptype r \<noteq> Some ''line''"
    and out: "trim_tickerlist S r = Inr out"
  shows "(\<forall>t \<in> set out. startts r * 1000 \<le> timestamp_ms t) \<and>
         (\<exists>n. out = take n (drop (length (takeWhile (\<lambda>t. timestamp_ms t < startts r * 1000) S)) S)) \<and>
         (\<forall>k < length (takeWhile (\<lambda>t. timestamp_ms t < startts r * 1000) S).
            timestamp_ms (S ! k) < startts r * 1000)"
proof -
  let ?P = "\<lambda>t. timestamp_ms t < startts r * 1000"
  let ?i = "length (takeWhile ?P S)"
  from out nonempty obtain i j where idx: "resolve_indices S r = Inr (i, j)"
    by (auto simp: trim_tickerlist_def split: sum.splits)
  from idx date have stop: "resolve_stop S r (int ?i, int (length S)) = Inr (i, j)"
    by (simp add: resolve_indices_def resolve_start_date)
  from resolve_stop_keeps_start [OF noline stop] have i: "i = int ?i" .
  have le: "?i \<le> length S" by (rule length_takeWhile_le)
  from out nonempty idx have "out = py_slice S i j"
    by (simp add: trim_nonempty split: if_splits)
  with i le have shape: "out = take (py_clamp (length S) j - ?i) (drop ?i S)"
    by (simp add: py_slice_from)
  have "drop ?i S = dropWhile ?P S" by (rule dropWhile_eq_drop [symmetric])
  with shape have "set out \<subseteq> set (dropWhile ?P S)"
    by (simp add: set_take_subset)
  with sorted have "\<forall>t \<in> set out. startts r * 1000 \<le> timestamp_ms t"
    by (blast intro: sorted_after_takeWhile)
  moreover from shape
  have "\<exists>n. out = take n (drop ?i S)" by blast
  moreover have "\<forall>k < ?i. timestamp_ms (S ! k) < startts r * 1000"
  proof (intro allI impI)
    fix k assume k: "k < ?i"
    then have "takeWhile ?P S ! k = S ! k" by (rule takeWhile_nth)
    moreover from k have "takeWhile ?P S ! k \<in> set (takeWhile ?P S)" by simp
    ultimately show "timestamp_ms (S ! k) < startts r * 1000"
      by (auto dest: set_takeWhileD)
  qed
  ultimately show ?thesis by blast
qed

theorem trim_date_start_witness:
  "list_all (\<lambda>t. (3000::int) \<le> timestamp_ms t) [Tick 3000 (), Tick 4000 ()] \<and>
   trim_tickerlist [Tick 1000 (), Tick 2000 (), Tick 3000 (), Tick 4000 ()]
     \<lparr>starttype = Some ''date'', stoptype = None, startts = 3, stopts = 0\<rparr>
     = Inr [Tick 3000 (), Tick 4000 ()]"
proof -
  let ?S = "[Tick 1000 (), Tick 2000 (), Tick 3000 (), Tick 4000 ()]"
  let ?r = "\<lparr>starttype = Some ''date'', stoptype = None, startts = 3, stopts = 0\<rparr>"
  have out: "trim_tickerlist ?S ?r = Inr [Tick 3000 (), Tick 4000 ()]"
    by (simp add: trim_tickerlist_def resolve_indices_def resolve_start_def resolve_stop_def
        start_scan_zero py_slice_def py_clamp_def)
  have "sorted (map timestamp_ms ?S)" by simp
  from trim_date_start [OF this _ _ _ out] out show ?thesis by simp
qed


lemma resolve_start_total: "\<exists>i j. resolve_start xs r = Inr (i, j)"
  by (simp add: resolve_start_def Let_def start_scan_zero)

lemma resolve_start_not_line:
  "starttype r \<noteq> Some ''line'' \<Longrightarrow> \<exists>i. resolve_start xs r = Inr (i, int (length xs))"
  by (simp add: resolve_start_def Let_def start_scan_zero)

text \<open>
  With a \<open>'date'\<close> start and no stop-side constraint the function always returns: the
  scan ends at or before \<open>len(tickerlist)\<close>, so the bound check passes.
\<close>

lemma trim_date_start_returns:
  assumes "starttype r = Some ''date''" and "stoptype r \<noteq> Some ''line''"
    and "stoptype r \<noteq> Some ''index''" and "stoptype r \<noteq> Some ''date''"
  shows "trim_tickerlist S r =
           Inr (dropWhile (\<lambda>t. timestamp_ms t < startts r * 1000) S)"
proof (cases "S = []")
  case True
  then show ?thesis by (simp add: trim_tickerlist_def)
next
  case False
  let ?P = "\<lambda>t. timestamp_ms t < startts r * 1000"
  let ?i = "length (takeWhile ?P S)"
  have le: "?i \<le> length S" by (rule length_takeWhile_le)
  from assms have "resolve_indices S r = Inr (int ?i, int (length S))"
    by (simp add: resolve_indices_def resolve_start_date resolve_stop_plain)
  with False le have "trim_tickerlist S r = Inr (py_slice S (int ?i) (int (length S)))"
    by (simp add: trim_nonempty)
  moreover from le have "py_slice S (int ?i) (int (length S)) = drop ?i S"
    by (simp add: py_slice_from py_clamp_nonneg)
  moreover have "drop ?i S = dropWhile ?P S" by (rule dropWhile_eq_drop [symmetric])
  ultimately show ?thesis by simp
qed

text \<open>
  The stop type \<open>'line'\<close> is left out of the theorem above because it replaces the
  \<open>start_index\<close> that the \<open>'date'\<close> scan found: here the scan stops at index 2, the
  stop side moves the start back to 0, and the records below the date are returned.
\<close>

lemma trim_date_start_line_stop:
  "trim_tickerlist [Tick 1000 (), Tick 2000 (), Tick 3000 ()]
     \<lparr>starttype = Some ''date'', stoptype = Some ''line'', startts = 3, stopts = - 3\<rparr>
   = Inr [Tick 1000 (), Tick 2000 (), Tick 3000 ()]"
  by (simp add: trim_tickerlist_def resolve_indices_def resolve_start_def resolve_stop_def
      start_scan_zero py_slice_def py_clamp_def)

text \<open>
  Claim C6, as amended. The \<open>'line'\<close> type means different things on the two sides.
  As a start type its value \<open>v\<close> replaces \<open>stop_index\<close>: when the stop type is neither
  \<open>'index'\<close> nor \<open>'date'\<close> (which set or move \<open>stop_index\<close> again), \<open>trim_tickerlist\<close>
  returns the slice from \<open>start_index\<close> that ends at index \<open>v\<close>, and raises when the
  series is not empty and \<open>v\<close> is below \<open>start_index\<close>, which is 0, or \<open>n + stopts\<close> for
  a \<open>'line'\<close> stop; with no stop-side constraint that is the first \<open>v\<close> records, and
  the error for every negative \<open>v\<close>. As a stop type its value \<open>v\<close> replaces
  \<open>start_index\<close> by \<open>n + v\<close>: when the start type is not \<open>'line'\<close> the slice from
  \<open>n + v\<close> to the end is returned, and a positive \<open>v\<close> on a series that is not empty
  raises. So the stop type \<open>'line'\<close> with value \<open>-5\<close> on 20 records returns exactly the
  last 5 records.
\<close>

theorem trim_line_modes:
  "(starttype r = Some ''line'' \<and> stoptype r \<noteq> Some ''line'' \<and>
    stoptype r \<noteq> Some ''index'' \<and> stoptype r \<noteq> Some ''date'' \<longrightarrow>
      trim_tickerlist S r =
        (if S \<noteq> [] \<and> startts r < 0 then Inl (ValueError (startts r) (stopts r))
         else Inr (take (nat (startts r)) S))) \<and>
   (starttype r = Some ''line'' \<and> stoptype r = Some ''line'' \<longrightarrow>
      trim_tickerlist S r =
        (if S = [] then Inr []
         else if startts r < int (length S) + stopts r
         then Inl (ValueError (startts r) (stopts r))
         else Inr (py_slice S (int (length S) + stopts r) (startts r)))) \<and>
   (starttype r \<noteq> Some ''line'' \<and> stoptype r = Some ''line'' \<longrightarrow>
      trim_tickerlist S r =
        (if S = [] then Inr []
         else if 0 < stopts r then Inl (ValueError (startts r) (stopts r))
         else Inr (py_slice S (int (length S) + stopts r) (int (length S))))) \<and>
   (length S = 20 \<and> starttype r \<noteq> Some ''line'' \<and> stoptype r = Some ''line'' \<and>
    stopts r = - 5 \<longrightarrow>
      trim_tickerlist S r = Inr (drop 15 S))"
proof (intro conjI impI)
  assume a: "starttype r = Some ''line'' \<and> stoptype r \<noteq> Some ''line'' \<and>
    stoptype r \<noteq> Some ''index'' \<and> stoptype r \<noteq> Some ''date''"
  show "trim_tickerlist S r =
      (if S \<noteq> [] \<and> startts r < 0 then Inl (ValueError (startts r) (stopts r))
       else Inr (take (nat (startts r)) S))"
  proof (cases "S = []")
    case True
    then show ?thesis by (simp add: trim_tickerlist_def)
  next
    case False
    from a have "resolve_start S r = Inr (0, startts r)"
      by (simp add: resolve_start_def Let_def)
    with a have "resolve_indices S r = Inr (0, startts r)"
      by (simp add: resolve_indices_def resolve_stop_plain)
    with False have "trim_tickerlist S r =
        (if startts r < 0 then Inl (ValueError (startts r) (stopts r))
         else Inr (py_slice S 0 (startts r)))"
      by (simp add: trim_nonempty)
    moreover have "0 \<le> startts r \<Longrightarrow> py_slice S 0 (startts r) = take (nat (startts r)) S"
      by (simp add: py_slice_def py_clamp_def min_def)
    ultimately show ?thesis using False by simp
  qed
next
  assume a: "starttype r = Some ''line'' \<and> stoptype r = Some ''line''"
  show "trim_tickerlist S r =
      (if S = [] then Inr []
       else if startts r < int (length S) + stopts r
       then Inl (ValueError (startts r) (stopts r))
       else Inr (py_slice S (int (length S) + stopts r) (startts r)))"
  proof (cases "S = []")
    case True
    then show ?thesis by (simp add: trim_tickerlist_def)
  next
    case False
    from a have "resolve_indices S r = Inr (int (length S) + stopts r, startts r)"
      by (simp add: resolve_indices_def resolve_start_def resolve_stop_def Let_def)
    with False show ?thesis by (simp add: trim_nonempty)
  qed
next
  assume a: "starttype r \<noteq> Some ''line'' \<and> stoptype r = Some ''line''"
  show "trim_tickerlist S r =
      (if S = [] then Inr []
       else if 0 < stopts r then Inl (ValueError (startts r) (stopts r))
       else Inr (py_slice S (int (length S) + stopts r) (int (length S))))"
  proof (cases "S = []")
    case True
    then show ?thesis by (simp add: trim_tickerlist_def)
  next
    case False
    from a obtain i0 where "resolve_start S r = Inr (i0, int (length S))"
      using resolve_start_not_line [of r S] by auto
    with a have "resolve_indices S r = Inr (int (length S) + stopts r, int (length S))"
      by (simp add: resolve_indices_def resolve_stop_def Let_def)
    with False show ?thesis by (simp add: trim_nonempty)
  qed
next
  assume a: "length S = 20 \<and> starttype r \<noteq> Some ''line'' \<and> stoptype r = Some ''line'' \<and>
    stopts r = - 5"
  then obtain i0 where "resolve_start S r = Inr (i0, 20)"
    using resolve_start_not_line [of r S] by auto
  with a have "resolve_indices S r = Inr (15, 20)"
    by (simp add: resolve_indices_def resolve_stop_def Let_def)
  moreover from a have "S \<noteq> []" by auto
  ultimately have "trim_tickerlist S r = Inr (py_slice S 15 20)"
    by (simp add: trim_nonempty)
  moreover from a have "py_slice S 15 20 = drop 15 S"
    by (simp add: py_slice_def py_clamp_def)
  ultimately show "trim_tickerlist S r = Inr (drop 15 S)" by simp
qed

theorem trim_line_modes_witness:
  "trim_tickerlist (map (\<lambda>k. Tick (int k) ()) [0..<20])
     \<lparr>starttype = None, stoptype = Some ''line'', startts = 0, stopts = - 5\<rparr>
   = Inr [Tick 15 (), Tick 16 (), Tick 17 (), Tick 18 (), Tick 19 ()] \<and>
   trim_tickerlist [Tick 10 (), Tick 20 (), Tick 30 ()]
     \<lparr>starttype = Some ''line'', stoptype = None, startts = 2, stopts = 0\<rparr>
   = Inr [Tick 10 (), Tick 20 ()] \<and>
   trim_tickerlist [Tick 10 (), Tick 20 (), Tick 30 ()]
     \<lparr>starttype = Some ''line'', stoptype = Some ''line'', startts = 2, stopts = - 2\<rparr>
   = Inr [Tick 20 ()]"
proof -
  have "[0..<20] = [0,1,2,3,4,5,6,7,8,9,10,11,12,13,14,15,16,17,18,19::nat]"
    by (simp add: upt_rec)
  then show ?thesis
    using trim_line_modes [of "\<lparr>starttype = None, stoptype = Some ''line'', startts = 0, stopts = - 5\<rparr>"
        "map (\<lambda>k. Tick (int k) ()) [0..<20]"]
      trim_line_modes [of "\<lparr>starttype = Some ''line'', stoptype = None, startts = 2, stopts = 0\<rparr>"
        "[Tick 10 (), Tick 20 (), Tick 30 ()]"]
      trim_line_modes [of "\<lparr>starttype = Some ''line'', stoptype = Some ''line'', startts = 2, stopts = - 2\<rparr>"
        "[Tick 10 (), Tick 20 (), Tick 30 ()]"]
    by (simp add: py_slice_def py_clamp_def)
qed

text \<open>
  The claim as it was stated fails in three ways: a negative start-side line value is
  not the end of a slice but an error; an \<open>'index'\<close> stop replaces \<open>stop_index\<close> again;
  and a \<open>'date'\<close> stop scans down from the line value, out of range when the value is
  above the length.
\<close>

theorem trim_line_start_counterexample:
  "trim_tickerlist [Tick 10 (), Tick 20 (), Tick 30 ()]
     \<lparr>starttype = Some ''line'', stoptype = None, startts = - 1, stopts = 0\<rparr>
   = Inl (ValueError (- 1) 0) \<and>
   py_slice [Tick 10 (), Tick 20 (), Tick 30 ()] 0 (- 1) = [Tick 10 (), Tick 20 ()] \<and>
   trim_tickerlist [Tick 10 (), Tick 20 (), Tick 30 ()]
     \<lparr>starttype = Some ''line'', stoptype = Some ''index'', startts = 2, stopts = 1\<rparr>
   = Inr [Tick 10 ()] \<and>
   trim_tickerlist [Tick 10 (), Tick 20 (), Tick 30 ()]
     \<lparr>starttype = Some ''line'', stoptype = Some ''date'', startts = 5, stopts = 100\<rparr>
   = Inl IndexError"
  by (simp add: trim_tickerlist_def resolve_indices_def resolve_start_def resolve_stop_def
      py_slice_def py_clamp_def py_index_def stop_scan.simps)

text \<open>
  Claim C7. \<open>trim_tickerlist\<close> raises its \<open>ValueError\<close> exactly when the series is not
  empty and the two indices resolve with \<open>start_index\<close> above \<open>stop_index\<close>; the
  message then holds the two bounds \<open>startts\<close> and \<open>stopts\<close> of the range. On the empty
  series it returns the empty series for every range.
\<close>

theorem trim_raises_iff:
  "(trim_tickerlist S r = Inl (ValueError a b)) =
     (S \<noteq> [] \<and> (\<exists>i j. resolve_indices S r = Inr (i, j) \<and> j < i) \<and>
      a = startts r \<and> b = stopts r) \<and>
   trim_tickerlist [] r = Inr []"
proof
  show "(trim_tickerlist S r = Inl (ValueError a b)) =
     (S \<noteq> [] \<and> (\<exists>i j. resolve_indices S r = Inr (i, j) \<and> j < i) \<and>
      a = startts r \<and> b = stopts r)"
  proof (cases "S = []")
    case True
    then show ?thesis by (simp add: trim_tickerlist_def)
  next
    case ne: False
    show ?thesis
    proof (cases "resolve_indices S r")
      case (Inl e)
      then have "e = IndexError" by (rule resolve_indices_error)
      with Inl ne show ?thesis by (simp add: trim_tickerlist_def)
    next
      case (Inr idx)
      obtain i j where "idx = (i, j)" by (cases idx)
      with Inr ne show ?thesis by (auto simp: trim_nonempty)
    qed
  qed
  show "trim_tickerlist [] r = Inr []" by (simp add: trim_tickerlist_def)
qed

theorem trim_raises_iff_witness:
  "trim_tickerlist [Tick 1000 ()]
     \<lparr>starttype = Some ''index'', stoptype = None, startts = 5, stopts = 0\<rparr>
   = Inl (ValueError 5 0) \<and>
   trim_tickerlist ([] :: unit tick list)
     \<lparr>starttype = Some ''index'', stoptype = None, startts = 5, stopts = 0\<rparr> = Inr []"
proof -
  let ?r = "\<lparr>starttype = Some ''index'', stoptype = None, startts = 5, stopts = 0\<rparr>"
  have "resolve_indices [Tick 1000 ()] ?r = Inr (5, 1)"
    by (simp add: resolve_indices_def resolve_start_def resolve_stop_def)
  then show ?thesis
    using trim_raises_iff [of "[Tick 1000 ()]" ?r 5 0] by simp
qed

text \<open>
  Claim C9. With no constraint on either side (both types \<open>None\<close>) trimming is the
  identity, for every series.
\<close>

theorem trim_unconstrained:
  "starttype r = None \<Longrightarrow> stoptype r = None \<Longrightarrow> trim_tickerlist S r = Inr S"
  by (simp add: trim_tickerlist_def resolve_indices_def resolve_start_def resolve_stop_def
      py_slice_all)

theorem trim_unconstrained_witness:
  "trim_tickerlist [Tick 1000 (), Tick 2000 ()]
     \<lparr>starttype = None, stoptype = None, startts = 0, stopts = 0\<rparr>
   = Inr [Tick 1000 (), Tick 2000 ()]"
  using trim_unconstrained
    [of "\<lparr>starttype = None, stoptype = None, startts = 0, stopts = 0\<rparr>"
      "[Tick 1000 (), Tick 2000 ()]"]
  by simp


section \<open>Claims about load_cached_data_for_updating\<close>

lemma requested_since_unset:
  "timerange = None \<or>
   (\<exists>r. timerange = Some r \<and> starttype r \<noteq> Some ''date'' \<and> stoptype r \<noteq> Some ''line'') \<Longrightarrow>
   requested_since e tick_interval timerange = Inr None"
  by (auto simp: requested_since_def)

lemma read_cache_some: "fs filename = Some c \<Longrightarrow> read_cache fs filename = butlast c"
  by (simp add: read_cache_def)

lemma read_cache_none: "fs filename = None \<Longrightarrow> read_cache fs filename = []"
  by (simp add: read_cache_def)

lemma butlast_nonempty: "2 \<le> length c \<Longrightarrow> butlast c \<noteq> []"
  by (cases c) (auto split: if_splits)

text \<open>
  Claim C1, as amended. Let the cache file hold \<open>[r1..rn]\<close> and let no start be
  requested (no range, or a range with neither a \<open>'date'\<close> start nor a \<open>'line'\<close> stop).
  For \<open>n \<ge> 2\<close> the function returns \<open>[r1..r(n-1)]\<close> and the timestamp of \<open>r(n-1)\<close>
  plus 1. For \<open>n = 1\<close> the only record is dropped, nothing is retained and the start is
  left unset.
\<close>

theorem load_cached_drops_last:
  assumes cached: "fs filename = Some c"
    and nosince: "timerange = None \<or>
      (\<exists>r. timerange = Some r \<and> starttype r \<noteq> Some ''date'' \<and> stoptype r \<noteq> Some ''line'')"
  shows "(2 \<le> length c \<longrightarrow>
            load_cached_data_for_updating e fs filename tick_interval timerange =
              Inr (butlast c, Some (timestamp_ms (last (butlast c)) + 1))) \<and>
         (length c = 1 \<longrightarrow>
            load_cached_data_for_updating e fs filename tick_interval timerange =
              Inr ([], None))"
proof -
  from nosince have rs: "requested_since e tick_interval timerange = Inr None"
    by (rule requested_since_unset)
  have long: "load_cached_data_for_updating e fs filename tick_interval timerange =
        Inr (butlast c, Some (timestamp_ms (last (butlast c)) + 1))" if "2 \<le> length c"
  proof -
    from that have "butlast c \<noteq> []" by (rule butlast_nonempty)
    with rs cached show ?thesis
      by (simp add: load_cached_data_for_updating_def Let_def read_cache_some since_earlier_def)
  qed
  have single: "load_cached_data_for_updating e fs filename tick_interval timerange =
        Inr ([], None)" if "length c = 1"
  proof -
    from that have "butlast c = []" by (cases c) auto
    with rs cached show ?thesis
      by (simp add: load_cached_data_for_updating_def Let_def read_cache_some)
  qed
  from long single show ?thesis by blast
qed

theorem load_cached_drops_last_witness:
  "load_cached_data_for_updating example_env
     [''f'' \<mapsto> [Tick 1000 (), Tick 2000 (), Tick 3000 ()]] ''f'' ''5m'' None
   = Inr ([Tick 1000 (), Tick 2000 ()], Some 2001)"
  using load_cached_drops_last
    [of "[''f'' \<mapsto> [Tick 1000 (), Tick 2000 (), Tick 3000 ()]]" "''f''"
      "[Tick 1000 (), Tick 2000 (), Tick 3000 ()]" None example_env "''5m''"]
  by simp

theorem load_cached_single_record_counterexample:
  "load_cached_data_for_updating example_env [''f'' \<mapsto> [Tick 1000 ()]] ''f'' ''5m'' None
     = Inr ([], None) \<and>
   load_cached_data_for_updating example_env [''f'' \<mapsto> [Tick 1000 ()]] ''f'' ''5m'' None
     \<noteq> Inr (butlast [Tick 1000 ()],
            Some (timestamp_ms (last (butlast [Tick 1000 ()])) + 1))"
  by (simp add: load_cached_data_for_updating_def Let_def requested_since_def read_cache_def)

text \<open>
  Claim C3, at the input where the code departs from it. The requested start is the
  \<open>'date'\<close> 0, so \<open>since_ms\<close> is 0, which is earlier than the first cached timestamp
  1000; the test \<open>since_ms and since_ms < data[0][0]\<close> is false for 0, the cache is kept
  and the function resumes after it instead of fetching everything again.
\<close>

theorem load_cached_since_zero:
  "load_cached_data_for_updating example_env
     [''f'' \<mapsto> [Tick 1000 (), Tick 2000 (), Tick 3000 ()]] ''f'' ''5m''
     (Some \<lparr>starttype = Some ''date'', stoptype = None, startts = 0, stopts = 0\<rparr>)
   = Inr ([Tick 1000 (), Tick 2000 ()], Some 2001)"
  by (simp add: load_cached_data_for_updating_def Let_def requested_since_def read_cache_def
      since_earlier_def)

text \<open>For every requested start other than 0 the full refetch of claim C3 happens.\<close>

lemma load_cached_full_refetch:
  assumes "fs filename = Some c" and "butlast c \<noteq> []"
    and "requested_since e tick_interval timerange = Inr (Some s)"
    and "s \<noteq> 0" and "s < timestamp_ms (hd (butlast c))"
  shows "load_cached_data_for_updating e fs filename tick_interval timerange = Inr ([], Some s)"
  using assms
  by (simp add: load_cached_data_for_updating_def Let_def read_cache_some since_earlier_def)

text \<open>
  Claim C4, as amended. When no cache file exists the function returns the empty
  series, and the start it returns comes from the range, the interval table and the
  clock: a \<open>'date'\<close> start gives that timestamp in milliseconds; otherwise a \<open>'line'\<close>
  stop gives the time \<open>stopts\<close> intervals away from now, in milliseconds; every other
  range, and no range, gives \<open>None\<close>.
\<close>

theorem load_cached_no_file:
  assumes nofile: "fs filename = None"
  shows "(\<forall>r. timerange = Some r \<and> starttype r = Some ''date'' \<longrightarrow>
            load_cached_data_for_updating e fs filename tick_interval timerange =
              Inr ([], Some (startts r * 1000))) \<and>
         (\<forall>r mins t. timerange = Some r \<and> starttype r \<noteq> Some ''date'' \<and>
              stoptype r = Some ''line'' \<and>
              TICKER_INTERVAL_MINUTES e tick_interval = Some mins \<and>
              utcnow_shift_minutes e (stopts r * mins) = Inr t \<longrightarrow>
            load_cached_data_for_updating e fs filename tick_interval timerange =
              Inr ([], Some (t * 1000))) \<and>
         (timerange = None \<or>
          (\<exists>r. timerange = Some r \<and> starttype r \<noteq> Some ''date'' \<and>
               stoptype r \<noteq> Some ''line'') \<longrightarrow>
            load_cached_data_for_updating e fs filename tick_interval timerange =
              Inr ([], None))"
proof (intro conjI allI impI)
  fix r
  assume "timerange = Some r \<and> starttype r = Some ''date''"
  with nofile
  show "load_cached_data_for_updating e fs filename tick_interval timerange =
      Inr ([], Some (startts r * 1000))"
    by (simp add: load_cached_data_for_updating_def Let_def requested_since_def read_cache_none)
next
  fix r mins t
  assume "timerange = Some r \<and> starttype r \<noteq> Some ''date'' \<and> stoptype r = Some ''line'' \<and>
    TICKER_INTERVAL_MINUTES e tick_interval = Some mins \<and>
    utcnow_shift_minutes e (stopts r * mins) = Inr t"
  with nofile
  show "load_cached_data_for_updating e fs filename tick_interval timerange =
      Inr ([], Some (t * 1000))"
    by (simp add: load_cached_data_for_updating_def Let_def requested_since_def read_cache_none)
next
  assume "timerange = None \<or>
    (\<exists>r. timerange = Some r \<and> starttype r \<noteq> Some ''date'' \<and> stoptype r \<noteq> Some ''line'')"
  then have "requested_since e tick_interval timerange = Inr None"
    by (rule requested_since_unset)
  with nofile
  show "load_cached_data_for_updating e fs filename tick_interval timerange = Inr ([], None)"
    by (simp add: load_cached_data_for_updating_def Let_def read_cache_none)
qed

theorem load_cached_no_file_witness:
  "load_cached_data_for_updating example_env (Map.empty :: string \<rightharpoonup> unit tick list) ''f'' ''5m''
     (Some \<lparr>starttype = Some ''date'', stoptype = None, startts = 3, stopts = 0\<rparr>)
   = Inr ([], Some 3000) \<and>
   load_cached_data_for_updating example_env (Map.empty :: string \<rightharpoonup> unit tick list) ''f'' ''5m''
     (Some \<lparr>starttype = Some ''index'', stoptype = Some ''index'', startts = 3, stopts = 7\<rparr>)
   = Inr ([], None)"
  using load_cached_no_file
    [of "Map.empty :: string \<rightharpoonup> unit tick list" "''f''"
      "Some \<lparr>starttype = Some ''date'', stoptype = None, startts = 3, stopts = 0\<rparr>"
      example_env "''5m''"]
    load_cached_no_file
    [of "Map.empty :: string \<rightharpoonup> unit tick list" "''f''"
      "Some \<lparr>starttype = Some ''index'', stoptype = Some ''index'', startts = 3, stopts = 7\<rparr>"
      example_env "''5m''"]
  by simp

theorem load_cached_line_stop_counterexample:
  "load_cached_data_for_updating example_env (Map.empty :: string \<rightharpoonup> unit tick list) ''f'' ''5m''
     (Some \<lparr>starttype = None, stoptype = Some ''line'', startts = 0, stopts = - 5\<rparr>)
   = Inr ([], Some 1541324100000) \<and>
   load_cached_data_for_updating example_env (Map.empty :: string \<rightharpoonup> unit tick list) ''f'' ''5m''
     (Some \<lparr>starttype = None, stoptype = Some ''line'', startts = 0, stopts = - 5\<rparr>)
   \<noteq> Inr ([], None)"
  by (simp add: load_cached_data_for_updating_def Let_def requested_since_def read_cache_def
      example_env_def)

text \<open>
  Claim C10. Whatever the range, when the series that is returned is not empty the
  start that is returned is the timestamp of its last record plus 1.
\<close>

theorem load_cached_resume_after_last:
  assumes "load_cached_data_for_updating e fs filename tick_interval timerange =
      Inr (data, since_ms)"
    and "data \<noteq> []"
  shows "since_ms = Some (timestamp_ms (last data) + 1)"
  using assms
  by (auto simp: load_cached_data_for_updating_def Let_def split: sum.splits if_splits)

theorem load_cached_resume_after_last_witness:
  "load_cached_data_for_updating example_env
     [''f'' \<mapsto> [Tick 1000 (), Tick 2000 (), Tick 3000 ()]] ''f'' ''5m''
     (Some \<lparr>starttype = Some ''date'', stoptype = None, startts = 5, stopts = 0\<rparr>)
   = Inr ([Tick 1000 (), Tick 2000 ()], Some 2001) \<and>
   Some (2001::int) = Some (timestamp_ms (last [Tick 1000 (), Tick 2000 ()]) + 1)"
proof -
  have run: "load_cached_data_for_updating example_env
     [''f'' \<mapsto> [Tick 1000 (), Tick 2000 (), Tick 3000 ()]] ''f'' ''5m''
     (Some \<lparr>starttype = Some ''date'', stoptype = None, startts = 5, stopts = 0\<rparr>)
   = Inr ([Tick 1000 (), Tick 2000 ()], Some 2001)"
    by (simp add: load_cached_data_for_updating_def Let_def requested_since_def read_cache_def
        since_earlier_def)
  from load_cached_resume_after_last [OF run] run show ?thesis by simp
qed


section \<open>Facts about floating-point rounding\<close>















lemma py_trunc_of_int [simp]: "py_trunc (of_int z) = z"
  by (simp add: py_trunc_def)



lemma float_round_zero [simp]: "float_round 0 = 0"
  by (simp add: float_round_def)

















section \<open>Claims about validate_backtest_data\<close>





section \<open>Claims about download_pairs\<close>

lemma files_log_to: "files (log_to r w) = files w"
  by (simp add: log_to_def)

lemma prepare_download_keeps_files:
  "prepare_download e m datadir pair tick_interval timerange w = Inr (filename, data, since_ms, w3)
   \<Longrightarrow> files w3 = files w"
  by (auto simp: prepare_download_def Let_def files_log_to split: sum.splits prod.splits)

lemma fetch_failure:
  assumes "prepare_download e m datadir pair tick_interval timerange w =
      Inr (filename, data, since_ms, w3)"
    and "exchange pair tick_interval (fetch_since e since_ms) = Inl err"
  shows "download_backtesting_testdata e m datadir exchange pair tick_interval timerange w =
      (Some err, w3)"
  using assms by (simp add: download_backtesting_testdata_def)

lemma download_pairs_append:
  "download_pairs e m datadir exchange (before @ rest) ticker_interval timerange w =
     (case download_pairs e m datadir exchange before ticker_interval timerange w of
        (True, w1) \<Rightarrow> download_pairs e m datadir exchange rest ticker_interval timerange w1
      | (False, w1) \<Rightarrow> (False, w1))"
proof (induction before arbitrary: w)
  case Nil
  then show ?case by simp
next
  case (Cons p before)
  show ?case
  proof (cases "download_backtesting_testdata e m datadir exchange p ticker_interval
      (Some timerange) w")
    case (Pair res w')
    then show ?thesis by (cases res) (simp_all add: Cons.IH)
  qed
qed

text \<open>Any exception while a pair is downloaded ends the loop in the same way.\<close>

lemma download_pairs_stops_at_exception:
  assumes "download_pairs e m datadir exchange before ticker_interval timerange w = (True, w1)"
    and "download_backtesting_testdata e m datadir exchange pair ticker_interval
           (Some timerange) w1 = (Some err, w2)"
  shows "download_pairs e m datadir exchange (before @ pair # rest) ticker_interval timerange w =
           (False, log_to (FailedToDownload pair ticker_interval) w2)"
  using assms by (simp add: download_pairs_append)

text \<open>
  Claim C2, as amended. A fetch failure for one pair is caught in the loop over the
  pairs and logged, and it ends the loop: \<open>download_pairs\<close> returns \<open>False\<close> at once,
  whatever pairs remain, and none of them is downloaded; the files are those left by
  the pairs before the failing one.
\<close>

theorem download_pairs_stops_at_failure:
  assumes before: "download_pairs e m datadir exchange before ticker_interval timerange w = (True, w1)"
    and ready: "prepare_download e m datadir pair ticker_interval (Some timerange) w1 =
                  Inr (filename, data, since_ms, w3)"
    and fetch: "exchange pair ticker_interval (fetch_since e since_ms) = Inl err"
  shows "download_pairs e m datadir exchange (before @ pair # rest) ticker_interval timerange w =
           (False, log_to (FailedToDownload pair ticker_interval) w3) \<and>
         files (log_to (FailedToDownload pair ticker_interval) w3) = files w1"
proof -
  from ready have "files w3 = files w1" by (rule prepare_download_keeps_files)
  moreover from ready fetch
  have "download_backtesting_testdata e m datadir exchange pair ticker_interval
          (Some timerange) w1 = (Some err, w3)"
    by (rule fetch_failure)
  with before
  have "download_pairs e m datadir exchange (before @ pair # rest) ticker_interval timerange w =
           (False, log_to (FailedToDownload pair ticker_interval) w3)"
    by (simp add: download_pairs_append)
  ultimately show ?thesis by (simp add: files_log_to)
qed

lemma example_prepare:
  "prepare_download example_env example_misc ''/d'' pair ''5m''
     (Some \<lparr>starttype = None, stoptype = None, startts = 0, stopts = 0\<rparr>)
     \<lparr>files = Map.empty, logged = []\<rparr>
   = Inr (cache_filename example_env ''/d'' pair ''5m'', [], None,
      \<lparr>files = Map.empty,
       logged = [DownloadThePair pair ''5m'', CurrentStart ''None'', CurrentEnd ''None'']\<rparr>)"
  by (simp add: prepare_download_def load_cached_data_for_updating_def requested_since_def
      read_cache_def stamp_or_none_def log_to_def Let_def)

theorem download_pairs_stops_at_failure_witness:
  "download_pairs example_env example_misc ''/d'' example_exchange [''A/B'', ''C/D''] ''5m''
     \<lparr>starttype = None, stoptype = None, startts = 0, stopts = 0\<rparr>
     \<lparr>files = Map.empty, logged = []\<rparr>
   = (False,
      \<lparr>files = Map.empty,
       logged = [DownloadThePair ''A/B'' ''5m'', CurrentStart ''None'', CurrentEnd ''None'',
                 FailedToDownload ''A/B'' ''5m'']\<rparr>)"
proof -
  let ?tr = "\<lparr>starttype = None, stoptype = None, startts = 0, stopts = 0\<rparr>"
  let ?w = "\<lparr>files = Map.empty, logged = []\<rparr> :: unit world"
  have before: "download_pairs example_env example_misc ''/d'' example_exchange [] ''5m'' ?tr ?w
      = (True, ?w)"
    by simp
  have fetch: "example_exchange ''A/B'' ''5m'' (fetch_since example_env None)
      = Inl (ExchangeError ''down'')"
    by (simp add: example_exchange_def)
  from download_pairs_stops_at_failure [OF before example_prepare fetch, of "[''C/D'']"]
  show ?thesis by (simp add: log_to_def)
qed

theorem download_pairs_abort_counterexample:
  "fst (download_pairs example_env example_misc ''/d'' example_exchange [''A/B'', ''C/D''] ''5m''
     \<lparr>starttype = None, stoptype = None, startts = 0, stopts = 0\<rparr>
     \<lparr>files = Map.empty, logged = []\<rparr>) = False \<and>
   files (snd (download_pairs example_env example_misc ''/d'' example_exchange
     [''A/B'', ''C/D''] ''5m''
     \<lparr>starttype = None, stoptype = None, startts = 0, stopts = 0\<rparr>
     \<lparr>files = Map.empty, logged = []\<rparr>)) ''/d/C_D-5m.json'' = None \<and>
   files (snd (download_pairs example_env example_misc ''/d'' example_exchange [''C/D''] ''5m''
     \<lparr>starttype = None, stoptype = None, startts = 0, stopts = 0\<rparr>
     \<lparr>files = Map.empty, logged = []\<rparr>)) ''/d/C_D-5m.json'' = Some [Tick 1000 (), Tick 2000 ()]"
proof -
  have name: "cache_filename example_env ''/d'' ''C/D'' ''5m'' = ''/d/C_D-5m.json''"
    by (simp add: cache_filename_def make_testdata_path_def os_path_join_def replace_slash_def)
  have failed: "download_backtesting_testdata example_env example_misc ''/d'' example_exchange
     ''A/B'' ''5m'' (Some \<lparr>starttype = None, stoptype = None, startts = 0, stopts = 0\<rparr>)
     \<lparr>files = Map.empty, logged = []\<rparr>
   = (Some (ExchangeError ''down''),
      \<lparr>files = Map.empty,
       logged = [DownloadThePair ''A/B'' ''5m'', CurrentStart ''None'', CurrentEnd ''None'']\<rparr>)"
    by (simp add: download_backtesting_testdata_def example_prepare example_exchange_def)
  have store: "store_download example_misc ''/d/C_D-5m.json'' [] [Tick 1000 (), Tick 2000 ()]
     \<lparr>files = Map.empty,
      logged = [DownloadThePair ''C/D'' ''5m'', CurrentStart ''None'', CurrentEnd ''None'']\<rparr>
   = (None,
      \<lparr>files = [''/d/C_D-5m.json'' \<mapsto> [Tick 1000 (), Tick 2000 ()]],
       logged = [DownloadThePair ''C/D'' ''5m'', CurrentStart ''None'', CurrentEnd ''None'',
                 NewStart ''a time'', NewEnd ''a time'']\<rparr>)"
    by (simp add: store_download_def stamp_at_def py_index_def file_dump_json_def
        example_misc_def log_to_def Let_def)
  have ok: "download_backtesting_testdata example_env example_misc ''/d'' example_exchange
     ''C/D'' ''5m'' (Some \<lparr>starttype = None, stoptype = None, startts = 0, stopts = 0\<rparr>)
     \<lparr>files = Map.empty, logged = []\<rparr>
   = (None,
      \<lparr>files = [''/d/C_D-5m.json'' \<mapsto> [Tick 1000 (), Tick 2000 ()]],
       logged = [DownloadThePair ''C/D'' ''5m'', CurrentStart ''None'', CurrentEnd ''None'',
                 NewStart ''a time'', NewEnd ''a time'']\<rparr>)"
    by (simp add: download_backtesting_testdata_def example_prepare example_exchange_def
        name store)
  show ?thesis by (simp add: failed ok log_to_def)
qed

end
